theory Spec2Isabelle
  imports Main "HOL-Library.Sublist"
begin

section \<open>DOM events\<close>

text \<open>
  The part of a DOM event the handlers of this repository act on: the canceled flag
  (read back as \<open>defaultPrevented\<close>) and the stop-propagation flag. The events are
  the cancelable ones the browser delivers, so \<open>preventDefault\<close> sets the flag.
\<close>

record dom_event =
  defaultPrevented :: bool
  propagationStopped :: bool

definition preventDefault :: "'a dom_event_scheme \<Rightarrow> 'a dom_event_scheme" where
  "preventDefault e = e\<lparr>defaultPrevented := True\<rparr>"

definition stopPropagation :: "'a dom_event_scheme \<Rightarrow> 'a dom_event_scheme" where
  "stopPropagation e = e\<lparr>propagationStopped := True\<rparr>"

text \<open>A \<open>KeyboardEvent\<close>: the fields the two \<open>handleKeyDown\<close> functions read.\<close>

record keyboard_event = dom_event +
  key :: string
  ctrlKey :: bool
  shiftKey :: bool

definition fresh_event :: dom_event where
  "fresh_event = \<lparr>defaultPrevented = False, propagationStopped = False\<rparr>"

definition keydown :: "string \<Rightarrow> bool \<Rightarrow> bool \<Rightarrow> keyboard_event" where
  "keydown k c s =
     \<lparr>defaultPrevented = False, propagationStopped = False, key = k, ctrlKey = c, shiftKey = s\<rparr>"

section \<open>SecurityLayer: the protection supervisor\<close>

text \<open>The two \<open>useState\<close> cells of \<open>SecurityLayer\<close>, both initially \<open>false\<close>.\<close>

record security_state =
  devToolsOpen :: bool
  screenCaptureAttempt :: bool

definition initial_security_state :: security_state where
  "initial_security_state = \<lparr>devToolsOpen = False, screenCaptureAttempt = False\<rparr>"

text \<open>The four window measurements \<open>detectDevTools\<close> reads.\<close>

record window_metrics =
  outerWidth :: int
  innerWidth :: int
  outerHeight :: int
  innerHeight :: int

text \<open>
  \<open>detectDevTools\<close>, the callback of \<open>setInterval(detectDevTools, 500)\<close>. The console
  output of the positive branch is not part of the state.
\<close>

definition detectDevTools :: "window_metrics \<Rightarrow> security_state \<Rightarrow> security_state" where
  "detectDevTools w s =
     (let widthThreshold = outerWidth w - innerWidth w > 160;
          heightThreshold = outerHeight w - innerHeight w > 160
      in if widthThreshold \<or> heightThreshold
         then s\<lparr>devToolsOpen := True\<rparr>
         else s\<lparr>devToolsOpen := False\<rparr>)"

text \<open>
  The \<open>keydown\<close> listener of \<open>SecurityLayer\<close>. The comparisons are those of the source:
  strict equality of \<open>e.key\<close> with the upper-case letters.
\<close>

definition SecurityLayer_handleKeyDown ::
  "keyboard_event \<Rightarrow> security_state \<Rightarrow> keyboard_event \<times> security_state" where
  "SecurityLayer_handleKeyDown e s =
     (if key e = ''F12'' \<or>
         (ctrlKey e \<and> shiftKey e \<and> key e = ''I'') \<or>
         (ctrlKey e \<and> shiftKey e \<and> key e = ''C'') \<or>
         (ctrlKey e \<and> key e = ''U'')
      then (preventDefault e, s\<lparr>devToolsOpen := True\<rparr>)
      else (e, s))"

subsection \<open>Interception of the capture API\<close>

text \<open>
  \<open>navigator.mediaDevices\<close> may be absent, and so may its \<open>getDisplayMedia\<close>. A present
  function is either the platform's own or the stub \<open>detectScreenCapture\<close> installs.
  \<open>writable\<close> says whether the host lets the property \<open>getDisplayMedia\<close> be assigned.
\<close>

datatype display_media_fn = Native | Stub

record media_devices =
  getDisplayMedia :: "display_media_fn option"
  writable :: bool

record navigator =
  mediaDevices :: "media_devices option"

text \<open>
  The assignment \<open>navigator.mediaDevices.getDisplayMedia = f\<close>. The file is a module,
  hence strict-mode code, where assigning to a property that is not writable throws.
\<close>

datatype exception = AssignmentToReadOnly

definition assign_getDisplayMedia ::
  "display_media_fn \<Rightarrow> media_devices \<Rightarrow> exception + media_devices" where
  "assign_getDisplayMedia f md =
     (if writable md then Inr (md\<lparr>getDisplayMedia := Some f\<rparr>) else Inl AssignmentToReadOnly)"

text \<open>
  \<open>detectScreenCapture\<close>: its result is the navigator after the call together with
  the lines written to the console. The body of the \<open>try\<close> is the guard and the
  assignment; an exception of the assignment is caught, and the \<open>catch\<close> branch logs
  one line and leaves the navigator as it was. Nothing is thrown to the caller.
\<close>

definition detectScreenCapture :: "navigator \<Rightarrow> navigator \<times> string list" where
  "detectScreenCapture nav =
     (case mediaDevices nav of
        None \<Rightarrow> (nav, [])
      | Some md \<Rightarrow>
          (case getDisplayMedia md of
             None \<Rightarrow> (nav, [])
           | Some originalGetDisplayMedia \<Rightarrow>
               (case assign_getDisplayMedia Stub md of
                  Inr md' \<Rightarrow> (nav\<lparr>mediaDevices := Some md'\<rparr>, [])
                | Inl error \<Rightarrow> (nav, [''Screen capture protection active'']))))"

text \<open>
  What a caller of \<open>navigator.mediaDevices.getDisplayMedia()\<close> gets back. Reading a
  property of an absent \<open>mediaDevices\<close> or calling an absent function throws a
  \<open>TypeError\<close>; the platform's own function answers with the outcome \<open>native\<close>; the
  stub sets \<open>screenCaptureAttempt\<close> and returns a rejected promise.
\<close>

datatype 'a call_outcome = TypeError | Rejected string | NativeOutcome 'a

definition call_getDisplayMedia ::
  "'a \<Rightarrow> navigator \<Rightarrow> security_state \<Rightarrow> 'a call_outcome \<times> security_state" where
  "call_getDisplayMedia native nav s =
     (case mediaDevices nav of
        None \<Rightarrow> (TypeError, s)
      | Some md \<Rightarrow>
          (case getDisplayMedia md of
             None \<Rightarrow> (TypeError, s)
           | Some Native \<Rightarrow> (NativeOutcome native, s)
           | Some Stub \<Rightarrow>
               (Rejected ''Screen capture blocked by SecureViewer Pro'',
                s\<lparr>screenCaptureAttempt := True\<rparr>)))"

subsection \<open>What SecurityLayer renders\<close>

text \<open>
  The three returns of the component, in the order of the source. The second overlay
  carries the only button of the component; its \<open>onClick\<close> is \<open>Continue_onClick\<close>.
\<close>

datatype 'c security_view = AccessDenied | ScreenCaptureBlocked | Children 'c

definition SecurityLayer_render :: "security_state \<Rightarrow> 'c \<Rightarrow> 'c security_view" where
  "SecurityLayer_render s children =
     (if devToolsOpen s then AccessDenied
      else if screenCaptureAttempt s then ScreenCaptureBlocked
      else Children children)"

definition Continue_onClick :: "security_state \<Rightarrow> security_state" where
  "Continue_onClick s = s\<lparr>screenCaptureAttempt := False\<rparr>"

text \<open>The buttons of each overlay, by label, as the JSX lists them.\<close>

fun overlay_buttons :: "'c security_view \<Rightarrow> string list" where
  "overlay_buttons AccessDenied = []"
| "overlay_buttons ScreenCaptureBlocked = [''Continue'']"
| "overlay_buttons (Children c) = []"

subsection \<open>The transitions of the supervisor's state\<close>

text \<open>
  Everything that writes \<open>devToolsOpen\<close> or \<open>screenCaptureAttempt\<close> while the component
  is mounted: a detection poll, a key press reaching the listener, a call of the
  installed capture function, and a click on the button of the overlay on screen.
\<close>

datatype security_event =
    Poll window_metrics
  | KeyDown keyboard_event
  | CaptureCall
  | Click string

definition security_step :: "navigator \<Rightarrow> security_event \<Rightarrow> security_state \<Rightarrow> security_state" where
  "security_step nav ev s =
     (case ev of
        Poll w \<Rightarrow> detectDevTools w s
      | KeyDown e \<Rightarrow> snd (SecurityLayer_handleKeyDown e s)
      | CaptureCall \<Rightarrow> snd (call_getDisplayMedia () nav s)
      | Click label \<Rightarrow>
          (if label \<in> set (overlay_buttons (SecurityLayer_render s ())) \<and> label = ''Continue''
           then Continue_onClick s else s))"

definition over_threshold :: "window_metrics \<Rightarrow> bool" where
  "over_threshold w \<longleftrightarrow> outerWidth w - innerWidth w > 160 \<or> outerHeight w - innerHeight w > 160"

subsection \<open>Global suppression of clipboard, drag and print events\<close>

text \<open>
  The three listeners of the second effect. Each is given with the value it returns;
  \<open>blockPrint\<close> takes no parameter and does nothing but return \<open>false\<close>.
\<close>

definition blockClipboard :: "'a dom_event_scheme \<Rightarrow> 'a dom_event_scheme \<times> bool" where
  "blockClipboard e = (stopPropagation (preventDefault e), False)"

definition blockDragDrop :: "'a dom_event_scheme \<Rightarrow> 'a dom_event_scheme \<times> bool" where
  "blockDragDrop e = (stopPropagation (preventDefault e), False)"

definition blockPrint :: "'a dom_event_scheme \<Rightarrow> 'a dom_event_scheme \<times> bool" where
  "blockPrint e = (e, False)"

datatype event_target = Document | Window

datatype event_type =
  Copy | Cut | Paste | DragStart | Drag | DragEnter | DragOver | Drop | BeforePrint

datatype listener = BlockClipboard | BlockDragDrop | BlockPrint

fun run_listener :: "listener \<Rightarrow> dom_event \<Rightarrow> dom_event \<times> bool" where
  "run_listener BlockClipboard e = blockClipboard e"
| "run_listener BlockDragDrop e = blockDragDrop e"
| "run_listener BlockPrint e = blockPrint e"

text \<open>The nine \<open>addEventListener\<close> calls of the effect, in the order of the source.\<close>

definition installed_listeners :: "(event_target \<times> event_type \<times> listener) list" where
  "installed_listeners =
     [(Document, Copy, BlockClipboard),
      (Document, Cut, BlockClipboard),
      (Document, Paste, BlockClipboard),
      (Document, DragStart, BlockDragDrop),
      (Document, Drag, BlockDragDrop),
      (Document, DragEnter, BlockDragDrop),
      (Document, DragOver, BlockDragDrop),
      (Document, Drop, BlockDragDrop),
      (Window, BeforePrint, BlockPrint)]"

text \<open>
  Dispatch of an event of type \<open>t\<close>: every listener registered for \<open>t\<close> runs on the
  event. A listener added with \<open>addEventListener\<close> has its return value discarded
  (only the flags it set on the event remain), which is the \<open>fst\<close> below.
\<close>

definition dispatch :: "event_type \<Rightarrow> dom_event \<Rightarrow> dom_event" where
  "dispatch t e =
     foldl (\<lambda>ev (tg, t', l). if t' = t then fst (run_listener l ev) else ev) e installed_listeners"

section \<open>DocumentViewer: the viewing surface\<close>

subsection \<open>Key suppression\<close>

text \<open>
  \<open>String.prototype.toLowerCase\<close> on the letters \<open>A\<close> to \<open>Z\<close>. A string is a list of
  bytes here; the bytes of a character outside ASCII are left as they are, and no such
  character lower-cases to one of the single letters the handler looks for.
\<close>

definition toLowerCase_char :: "char \<Rightarrow> char" where
  "toLowerCase_char c =
     (let n = (of_char c :: nat) in if 65 \<le> n \<and> n \<le> 90 then char_of (n + 32) else c)"

definition toLowerCase :: "string \<Rightarrow> string" where
  "toLowerCase k = map toLowerCase_char k"

text \<open>
  The \<open>keydown\<close> listener of \<open>DocumentViewer\<close>, registered for the capture phase. The
  result is the event after the listener ran; its \<open>return false\<close> is discarded.
\<close>

definition DocumentViewer_handleKeyDown :: "keyboard_event \<Rightarrow> keyboard_event" where
  "DocumentViewer_handleKeyDown e =
     (if (ctrlKey e \<and>
            toLowerCase (key e) \<in> set [''c'', ''v'', ''a'', ''s'', ''p'', ''u'', ''r'', ''z'', ''y'']) \<or>
         key e = ''F12'' \<or>
         (ctrlKey e \<and> shiftKey e \<and> toLowerCase (key e) \<in> set [''i'', ''c'', ''s'']) \<or>
         key e = ''F5'' \<or>
         key e = ''PrintScreen''
      then stopPropagation (preventDefault e)
      else e)"

text \<open>
  A key press on the page. \<open>DocumentViewer\<close> is mounted exactly when \<open>SecurityLayer\<close>
  renders its children, and then its listener runs first, in the capture phase; the
  listener of \<open>SecurityLayer\<close>, added for the bubble phase, runs unless propagation
  was stopped before.
\<close>

definition dispatch_keydown ::
  "keyboard_event \<Rightarrow> security_state \<Rightarrow> keyboard_event \<times> security_state" where
  "dispatch_keydown e s =
     (let e1 = (if SecurityLayer_render s () = Children () then DocumentViewer_handleKeyDown e else e)
      in if propagationStopped e1 then (e1, s) else SecurityLayer_handleKeyDown e1 s)"

text \<open>
  The shortcuts the specification lists for key suppression, and the key events that
  count as pressing each: the letter in either case, with the modifiers named.
\<close>

datatype shortcut =
  CtrlShiftI | CtrlShiftC | CtrlU | CtrlR | F5 | CtrlF | CtrlP | CtrlZ | CtrlY | F12

fun spec_pressed :: "shortcut \<Rightarrow> keyboard_event \<Rightarrow> bool" where
  "spec_pressed CtrlShiftI e = (ctrlKey e \<and> shiftKey e \<and> (key e = ''I'' \<or> key e = ''i''))"
| "spec_pressed CtrlShiftC e = (ctrlKey e \<and> shiftKey e \<and> (key e = ''C'' \<or> key e = ''c''))"
| "spec_pressed CtrlU e = (ctrlKey e \<and> (key e = ''u'' \<or> key e = ''U''))"
| "spec_pressed CtrlR e = (ctrlKey e \<and> (key e = ''r'' \<or> key e = ''R''))"
| "spec_pressed F5 e = (key e = ''F5'')"
| "spec_pressed CtrlF e = (ctrlKey e \<and> (key e = ''f'' \<or> key e = ''F''))"
| "spec_pressed CtrlP e = (ctrlKey e \<and> (key e = ''p'' \<or> key e = ''P''))"
| "spec_pressed CtrlZ e = (ctrlKey e \<and> (key e = ''z'' \<or> key e = ''Z''))"
| "spec_pressed CtrlY e = (ctrlKey e \<and> (key e = ''y'' \<or> key e = ''Y''))"
| "spec_pressed F12 e = (key e = ''F12'')"

subsection \<open>Zoom and navigation\<close>

definition handleZoomIn :: "int \<Rightarrow> int" where
  "handleZoomIn prev = min (prev + 25) 200"

definition handleZoomOut :: "int \<Rightarrow> int" where
  "handleZoomOut prev = max (prev - 25) 50"

datatype zoom_click = ZoomIn | ZoomOut

fun zoom_step :: "int \<Rightarrow> zoom_click \<Rightarrow> int" where
  "zoom_step z ZoomIn = handleZoomIn z"
| "zoom_step z ZoomOut = handleZoomOut z"

definition initial_zoom :: int where
  "initial_zoom = 100"

text \<open>
  \<open>nextFile\<close> and \<open>prevFile\<close>. \<open>onFileChange\<close> is the parent's \<open>setCurrentFileIndex\<close>,
  so the result is the index the viewer is rendered with next: the argument of the
  call, or the old index when the guard fails and nothing is called.
\<close>

definition nextFile :: "'f list \<Rightarrow> int \<Rightarrow> int" where
  "nextFile files currentIndex =
     (if currentIndex < int (length files) - 1 then currentIndex + 1 else currentIndex)"

definition prevFile :: "'f list \<Rightarrow> int \<Rightarrow> int" where
  "prevFile files currentIndex =
     (if currentIndex > 0 then currentIndex - 1 else currentIndex)"

datatype direction = Forward | Backward

fun navigate :: "'f list \<Rightarrow> int \<Rightarrow> direction \<Rightarrow> int" where
  "navigate files i Forward = nextFile files i"
| "navigate files i Backward = prevFile files i"

subsection \<open>Documents and their conversion\<close>

text \<open>
  \<open>UploadedFile\<close> (the fields \<open>id\<close>, \<open>file\<close> and \<open>size\<close> are primed here). The
  \<open>File\<close> object is its bytes; \<open>readAsDataURL\<close> turns them
  into a data URL, kept opaque here as \<open>DataURL\<close> of the bytes read. \<open>address\<close> is
  the identity of the object itself: two objects with equal fields are still two
  objects, and the dependency list of an effect is compared by identity.
\<close>

type_synonym blob = string

datatype data_url = DataURL blob

record uploaded_file =
  address :: nat
  id' :: string
  file' :: blob
  name :: string
  size' :: string
  type :: string
  url :: string
  progress :: nat

text \<open>
  The \<open>useState\<close> cells of \<open>DocumentViewer\<close> that its rendering depends on, and the
  \<open>FileReader\<close>s whose read has started and not yet ended, oldest first, each with
  the bytes it is reading.
\<close>

record viewer_state =
  zoom :: int
  isBlurred :: bool
  pdfData :: "data_url option"
  readers :: "blob list"

definition initial_viewer_state :: viewer_state where
  "initial_viewer_state = \<lparr>zoom = 100, isBlurred = False, pdfData = None, readers = []\<rparr>"

text \<open>\<open>files[currentIndex]\<close>: \<open>undefined\<close> outside the array.\<close>

definition currentFile :: "uploaded_file list \<Rightarrow> int \<Rightarrow> uploaded_file option" where
  "currentFile files currentIndex =
     (if 0 \<le> currentIndex \<and> currentIndex < int (length files)
      then Some (files ! nat currentIndex) else None)"

text \<open>
  The body of the conversion effect, run on mount and whenever \<open>currentFile\<close> changes.
  For a PDF it starts a reader and leaves \<open>pdfData\<close> as it is; otherwise it clears
  \<open>pdfData\<close>. The effect returns no cleanup.
\<close>

definition conversion_effect :: "uploaded_file option \<Rightarrow> viewer_state \<Rightarrow> viewer_state" where
  "conversion_effect cf v =
     (case cf of
        None \<Rightarrow> v\<lparr>pdfData := None\<rparr>
      | Some f \<Rightarrow>
          (if type f = ''application/pdf''
           then v\<lparr>readers := readers v @ [file' f]\<rparr>
           else v\<lparr>pdfData := None\<rparr>))"

text \<open>
  \<open>reader.onload\<close> and \<open>reader.onerror\<close> of the \<open>k\<close>-th pending reader: the first
  stores the data URL of the bytes that reader read, the second only logs.
\<close>

definition remove_nth :: "nat \<Rightarrow> 'a list \<Rightarrow> 'a list" where
  "remove_nth k xs = take k xs @ drop (Suc k) xs"

definition reader_onload :: "nat \<Rightarrow> viewer_state \<Rightarrow> viewer_state" where
  "reader_onload k v =
     (if k < length (readers v)
      then v\<lparr>pdfData := Some (DataURL (readers v ! k)), readers := remove_nth k (readers v)\<rparr>
      else v)"

definition reader_onerror :: "nat \<Rightarrow> viewer_state \<Rightarrow> viewer_state" where
  "reader_onerror k v =
     (if k < length (readers v) then v\<lparr>readers := remove_nth k (readers v)\<rparr> else v)"

subsection \<open>What DocumentViewer renders\<close>

text \<open>
  The returns of \<open>renderContent\<close>, in the order of the source, each with the values
  it displays: \<open>null\<close>, the image (source, alt text, zoom), the loading placeholder,
  the frame (source, title, zoom), the text placeholder (zoom) and the fallback
  (name, type).
\<close>

datatype content_view =
    Nothing
  | ImageView string string int
  | LoadingPdf
  | PdfFrame data_url string int
  | TextPlaceholder int
  | PreviewNotAvailable string string

definition renderContent :: "uploaded_file option \<Rightarrow> viewer_state \<Rightarrow> content_view" where
  "renderContent cf v =
     (case cf of
        None \<Rightarrow> Nothing
      | Some f \<Rightarrow>
          (if prefix ''image/'' (type f) then ImageView (url f) (name f) (zoom v)
           else if type f = ''application/pdf'' then
             (case pdfData v of
                None \<Rightarrow> LoadingPdf
              | Some d \<Rightarrow> PdfFrame d (name f) (zoom v))
           else if prefix ''text/'' (type f) then TextPlaceholder (zoom v)
           else PreviewNotAvailable (name f) (type f)))"

text \<open>The content area of the component: the focus-loss placeholder or the content.\<close>

datatype viewer_view = ContentProtected | Rendered content_view

definition DocumentViewer_render :: "uploaded_file option \<Rightarrow> viewer_state \<Rightarrow> viewer_view" where
  "DocumentViewer_render cf v =
     (if isBlurred v then ContentProtected else Rendered (renderContent cf v))"

text \<open>The focus and visibility listeners.\<close>

definition handleBlur :: "viewer_state \<Rightarrow> viewer_state" where
  "handleBlur v = v\<lparr>isBlurred := True\<rparr>"

definition handleFocus :: "viewer_state \<Rightarrow> viewer_state" where
  "handleFocus v = v\<lparr>isBlurred := False\<rparr>"

definition handleVisibilityChange :: "bool \<Rightarrow> viewer_state \<Rightarrow> viewer_state" where
  "handleVisibilityChange hidden v = v\<lparr>isBlurred := hidden\<rparr>"

subsection \<open>A viewing session\<close>

text \<open>
  The props the parent page passes down (\<open>files\<close> and its own \<open>currentFileIndex\<close>)
  with the state of the mounted viewer.
\<close>

record session =
  files :: "uploaded_file list"
  currentFileIndex :: int
  viewer :: viewer_state

definition mount :: "uploaded_file list \<Rightarrow> int \<Rightarrow> session" where
  "mount fs i =
     \<lparr>files = fs, currentFileIndex = i,
      viewer = conversion_effect (currentFile fs i) initial_viewer_state\<rparr>"

text \<open>
  Whether two values of \<open>currentFile\<close> are the same for the dependency list
  \<open>[currentFile]\<close>: both \<open>undefined\<close>, or one and the same object.
\<close>

definition same_dependency :: "uploaded_file option \<Rightarrow> uploaded_file option \<Rightarrow> bool" where
  "same_dependency a b =
     (case (a, b) of
        (None, None) \<Rightarrow> True
      | (Some f, Some g) \<Rightarrow> address f = address g
      | _ \<Rightarrow> False)"

text \<open>
  A change of the index re-renders the viewer; the conversion effect runs again when
  \<open>currentFile\<close> is then another object.
\<close>

definition onFileChange :: "int \<Rightarrow> session \<Rightarrow> session" where
  "onFileChange i x =
     (if same_dependency (currentFile (files x) i) (currentFile (files x) (currentFileIndex x))
      then x\<lparr>currentFileIndex := i\<rparr>
      else x\<lparr>currentFileIndex := i,
             viewer := conversion_effect (currentFile (files x) i) (viewer x)\<rparr>)"

datatype viewer_event =
    ClickZoom zoom_click
  | ClickNavigate direction
  | WindowBlur
  | WindowFocus
  | VisibilityChange bool
  | ReaderLoad nat
  | ReaderError nat

fun session_step :: "session \<Rightarrow> viewer_event \<Rightarrow> session" where
  "session_step x (ClickZoom c) = x\<lparr>viewer := (viewer x)\<lparr>zoom := zoom_step (zoom (viewer x)) c\<rparr>\<rparr>"
| "session_step x (ClickNavigate d) =
     onFileChange (navigate (files x) (currentFileIndex x) d) x"
| "session_step x WindowBlur = x\<lparr>viewer := handleBlur (viewer x)\<rparr>"
| "session_step x WindowFocus = x\<lparr>viewer := handleFocus (viewer x)\<rparr>"
| "session_step x (VisibilityChange h) = x\<lparr>viewer := handleVisibilityChange h (viewer x)\<rparr>"
| "session_step x (ReaderLoad k) = x\<lparr>viewer := reader_onload k (viewer x)\<rparr>"
| "session_step x (ReaderError k) = x\<lparr>viewer := reader_onerror k (viewer x)\<rparr>"

definition session_content :: "session \<Rightarrow> content_view" where
  "session_content x = renderContent (currentFile (files x) (currentFileIndex x)) (viewer x)"

subsection \<open>The page: SecurityLayer around DocumentViewer\<close>

definition page_render ::
  "security_state \<Rightarrow> uploaded_file option \<Rightarrow> viewer_state \<Rightarrow> viewer_view security_view" where
  "page_render s cf v = SecurityLayer_render s (DocumentViewer_render cf v)"

text \<open>
  An obstruction is one of the three placeholders; document content is whatever
  \<open>renderContent\<close> returned.
\<close>

fun is_obstruction :: "viewer_view security_view \<Rightarrow> bool" where
  "is_obstruction AccessDenied = True"
| "is_obstruction ScreenCaptureBlocked = True"
| "is_obstruction (Children ContentProtected) = True"
| "is_obstruction (Children (Rendered c)) = False"

fun is_document_content :: "viewer_view security_view \<Rightarrow> bool" where
  "is_document_content (Children (Rendered c)) = True"
| "is_document_content AccessDenied = False"
| "is_document_content ScreenCaptureBlocked = False"
| "is_document_content (Children ContentProtected) = False"

section \<open>Concrete inputs\<close>

text \<open>Windows with the inspection panel docked (a width delta of 200) and without.\<close>

definition docked_window :: window_metrics where
  "docked_window = \<lparr>outerWidth = 1200, innerWidth = 1000, outerHeight = 800, innerHeight = 700\<rparr>"

definition plain_window :: window_metrics where
  "plain_window = \<lparr>outerWidth = 1200, innerWidth = 1200, outerHeight = 800, innerHeight = 700\<rparr>"

text \<open>
  A navigator whose \<open>getDisplayMedia\<close> can be assigned, and one where the host has
  made the platform's function read-only.
\<close>

definition nav_with :: "display_media_fn option \<Rightarrow> navigator" where
  "nav_with f = \<lparr>mediaDevices = Some \<lparr>getDisplayMedia = f, writable = True\<rparr>\<rparr>"

definition frozen_nav :: navigator where
  "frozen_nav = \<lparr>mediaDevices = Some \<lparr>getDisplayMedia = Some Native, writable = False\<rparr>\<rparr>"


definition pdf_file :: "nat \<Rightarrow> string \<Rightarrow> blob \<Rightarrow> uploaded_file" where
  "pdf_file a n bytes =
     \<lparr>address = a, id' = n, file' = bytes, name = n, size' = ''1 KB'', type = ''application/pdf'',
      url = ''blob:'' @ n, progress = 100\<rparr>"

definition two_pdfs :: "uploaded_file list" where
  "two_pdfs = [pdf_file 1 ''a.pdf'' ''AAAA'', pdf_file 2 ''b.pdf'' ''BBBB'']"

section \<open>Auxiliary facts\<close>


lemma zoom_step_inv:
  "50 \<le> z \<and> z \<le> 200 \<and> (z - 100) mod 25 = 0 \<Longrightarrow>
   50 \<le> zoom_step z c \<and> zoom_step z c \<le> 200 \<and> (zoom_step z c - 100) mod 25 = 0"
  by (cases c) (auto simp: handleZoomIn_def handleZoomOut_def min_def max_def; presburger)+

lemma zoom_foldl_inv:
  "50 \<le> z \<and> z \<le> 200 \<and> (z - 100) mod 25 = 0 \<Longrightarrow>
   50 \<le> foldl zoom_step z cs \<and> foldl zoom_step z cs \<le> 200
   \<and> (foldl zoom_step z cs - 100) mod 25 = 0"
proof (induction cs arbitrary: z)
  case Nil
  then show ?case by simp
next
  case (Cons c cs)
  from zoom_step_inv [OF Cons.prems] show ?case
    by (simp add: Cons.IH)
qed

lemma navigate_in_range:
  "0 \<le> i \<Longrightarrow> i < int (length fs) \<Longrightarrow>
     0 \<le> navigate fs i d \<and> navigate fs i d < int (length fs)"
  by (cases d) (auto simp: nextFile_def prevFile_def)

lemma navigate_foldl_in_range:
  "0 \<le> i \<Longrightarrow> i < int (length fs) \<Longrightarrow>
     0 \<le> foldl (navigate fs) i ds \<and> foldl (navigate fs) i ds < int (length fs)"
proof (induction ds arbitrary: i)
  case Nil
  then show ?case by simp
next
  case (Cons d ds)
  from navigate_in_range [OF Cons.prems]
  have "0 \<le> navigate fs i d" and "navigate fs i d < int (length fs)"
    by simp_all
  then show ?case
    using Cons.IH [of "navigate fs i d"] by simp
qed


text \<open>
  The eight clipboard and drag events are cancelled by the listeners installed for
  them, whatever the event was like before.
\<close>

lemma dispatch_cancels_clipboard_and_drag:
  "t \<noteq> BeforePrint \<Longrightarrow> defaultPrevented (dispatch t e)"
  by (cases t)
     (simp_all add: dispatch_def installed_listeners_def blockClipboard_def blockDragDrop_def
        preventDefault_def stopPropagation_def)

text \<open>
  The listener of \<open>SecurityLayer\<close> on the events its condition names: the default is
  cancelled and \<open>devToolsOpen\<close> is set; a later poll under the threshold clears it.
\<close>

lemma SecurityLayer_handleKeyDown_detects:
  "key e = ''F12'' \<or> (ctrlKey e \<and> shiftKey e \<and> (key e = ''I'' \<or> key e = ''C''))
     \<or> (ctrlKey e \<and> key e = ''U'') \<Longrightarrow>
   defaultPrevented (fst (SecurityLayer_handleKeyDown e s))
   \<and> devToolsOpen (snd (SecurityLayer_handleKeyDown e s))
   \<and> (\<not> over_threshold w \<longrightarrow>
        \<not> devToolsOpen (detectDevTools w (snd (SecurityLayer_handleKeyDown e s))))"
  by (auto simp: SecurityLayer_handleKeyDown_def preventDefault_def detectDevTools_def
        over_threshold_def Let_def)

text \<open>
  With the viewer on screen its capture-phase listener takes F12 first and stops the
  propagation, so the listener of \<open>SecurityLayer\<close> does not run on that press.
\<close>

lemma F12_with_viewer_mounted:
  "dispatch_keydown (keydown ''F12'' False False) initial_security_state =
     (stopPropagation (preventDefault (keydown ''F12'' False False)), initial_security_state)"
  by (simp add: dispatch_keydown_def keydown_def SecurityLayer_render_def
      initial_security_state_def DocumentViewer_handleKeyDown_def preventDefault_def
      stopPropagation_def)

section \<open>Rendering invariant\<close>

text \<open>
  C1. In every state of the page, the rendered output is an obstruction exactly when
  \<open>devToolsOpen\<close>, \<open>screenCaptureAttempt\<close> or the viewer's \<open>isBlurred\<close> is true, and it
  is document content exactly when none of them is; so whenever one of the three flags
  is set an obstruction is rendered and not the document, and the two kinds of render
  never occur together.
\<close>

theorem obstruction_excludes_content:
  "(is_obstruction (page_render s cf v) \<longleftrightarrow>
      devToolsOpen s \<or> screenCaptureAttempt s \<or> isBlurred v)
   \<and> (is_document_content (page_render s cf v) \<longleftrightarrow>
      \<not> (devToolsOpen s \<or> screenCaptureAttempt s \<or> isBlurred v))
   \<and> \<not> (is_obstruction (page_render s cf v) \<and> is_document_content (page_render s cf v))"
  by (simp add: page_render_def SecurityLayer_render_def DocumentViewer_render_def)

theorem obstruction_excludes_content_witness:
  "is_obstruction (page_render initial_security_state (Some (pdf_file 1 ''a.pdf'' ''AAAA''))
      (handleBlur initial_viewer_state))
   \<and> \<not> is_document_content (page_render initial_security_state (Some (pdf_file 1 ''a.pdf'' ''AAAA''))
      (handleBlur initial_viewer_state))
   \<and> is_document_content (page_render initial_security_state (Some (pdf_file 1 ''a.pdf'' ''AAAA''))
      initial_viewer_state)"
  using obstruction_excludes_content [of initial_security_state "Some (pdf_file 1 ''a.pdf'' ''AAAA'')"
      "handleBlur initial_viewer_state"]
    obstruction_excludes_content [of initial_security_state "Some (pdf_file 1 ''a.pdf'' ''AAAA'')"
      initial_viewer_state]
  by (simp add: initial_security_state_def initial_viewer_state_def handleBlur_def)

section \<open>Capture-call interception\<close>

text \<open>
  C2, as stated, fails: on a host where \<open>getDisplayMedia\<close> exists but is read-only,
  the assignment throws, the \<open>catch\<close> branch logs a line, and the platform's function
  stays in place; a later call is answered by the platform and sets no flag.
\<close>

theorem read_only_capture_api_not_replaced:
  "mediaDevices frozen_nav = Some \<lparr>getDisplayMedia = Some Native, writable = False\<rparr>
   \<and> detectScreenCapture frozen_nav = (frozen_nav, [''Screen capture protection active''])
   \<and> call_getDisplayMedia () (fst (detectScreenCapture frozen_nav)) initial_security_state
       = (NativeOutcome (), initial_security_state)"
  by (simp add: frozen_nav_def detectScreenCapture_def assign_getDisplayMedia_def
      call_getDisplayMedia_def)

text \<open>
  C2, amended. If \<open>getDisplayMedia\<close> exists when \<open>detectScreenCapture\<close> runs and the
  assignment replacing it succeeds, then afterwards every call of it, in whatever
  state, sets \<open>screenCaptureAttempt\<close> and returns a rejected promise instead of the
  platform's outcome, and nothing is logged. If the assignment throws, the exception
  is caught, one line is logged and the navigator is left as it was. If
  \<open>mediaDevices\<close> or the function is absent, the navigator is left as it was and
  nothing is logged.
\<close>

theorem capture_api_intercepted_when_assignable:
  "(mediaDevices nav = Some md \<and> getDisplayMedia md = Some f \<and> writable md \<longrightarrow>
      call_getDisplayMedia native (fst (detectScreenCapture nav)) s =
        (Rejected ''Screen capture blocked by SecureViewer Pro'',
         s\<lparr>screenCaptureAttempt := True\<rparr>)
      \<and> snd (detectScreenCapture nav) = [])
   \<and> (mediaDevices nav = Some md \<and> getDisplayMedia md = Some f \<and> \<not> writable md \<longrightarrow>
      detectScreenCapture nav = (nav, [''Screen capture protection active'']))
   \<and> (mediaDevices nav = None \<or> (mediaDevices nav = Some md \<and> getDisplayMedia md = None) \<longrightarrow>
      detectScreenCapture nav = (nav, []))"
  by (auto simp: detectScreenCapture_def assign_getDisplayMedia_def call_getDisplayMedia_def
        split: option.splits)

theorem capture_api_intercepted_when_assignable_witness:
  "mediaDevices (nav_with (Some Native)) = Some \<lparr>getDisplayMedia = Some Native, writable = True\<rparr>
   \<and> call_getDisplayMedia () (fst (detectScreenCapture (nav_with (Some Native))))
        initial_security_state =
        (Rejected ''Screen capture blocked by SecureViewer Pro'',
         \<lparr>devToolsOpen = False, screenCaptureAttempt = True\<rparr>)
   \<and> snd (detectScreenCapture (nav_with (Some Native))) = []
   \<and> mediaDevices frozen_nav = Some \<lparr>getDisplayMedia = Some Native, writable = False\<rparr>
   \<and> detectScreenCapture frozen_nav = (frozen_nav, [''Screen capture protection active''])
   \<and> mediaDevices (nav_with None) = Some \<lparr>getDisplayMedia = None, writable = True\<rparr>
   \<and> detectScreenCapture (nav_with None) = (nav_with None, [])"
  using capture_api_intercepted_when_assignable
      [of "nav_with (Some Native)" "\<lparr>getDisplayMedia = Some Native, writable = True\<rparr>"
          Native "()" initial_security_state]
    capture_api_intercepted_when_assignable
      [of frozen_nav "\<lparr>getDisplayMedia = Some Native, writable = False\<rparr>"
          Native "()" initial_security_state]
    capture_api_intercepted_when_assignable
      [of "nav_with None" "\<lparr>getDisplayMedia = None, writable = True\<rparr>"
          Native "()" initial_security_state]
  by (simp add: nav_with_def frozen_nav_def initial_security_state_def)

section \<open>Detection poll\<close>

text \<open>
  C3. On every detection poll the flag \<open>devToolsOpen\<close> becomes true if
  \<open>outerWidth - innerWidth\<close> or \<open>outerHeight - innerHeight\<close> exceeds 160 and false
  otherwise, whatever it was before; the other flag is untouched. Hence the
  access-denied overlay is on screen right after a poll exactly when a delta exceeded
  the threshold at that poll.
\<close>

theorem detectDevTools_sets_flag:
  "devToolsOpen (detectDevTools w s) =
     (outerWidth w - innerWidth w > 160 \<or> outerHeight w - innerHeight w > 160)
   \<and> screenCaptureAttempt (detectDevTools w s) = screenCaptureAttempt s
   \<and> (SecurityLayer_render (detectDevTools w s) c = AccessDenied) =
     (outerWidth w - innerWidth w > 160 \<or> outerHeight w - innerHeight w > 160)"
  by (simp add: detectDevTools_def SecurityLayer_render_def Let_def)

theorem detectDevTools_sets_flag_witness:
  "SecurityLayer_render (detectDevTools docked_window initial_security_state) () = AccessDenied
   \<and> SecurityLayer_render
        (detectDevTools plain_window (detectDevTools docked_window initial_security_state)) ()
      \<noteq> AccessDenied"
  using detectDevTools_sets_flag [of docked_window initial_security_state "()"]
    detectDevTools_sets_flag
      [of plain_window "detectDevTools docked_window initial_security_state" "()"]
  by (simp add: docked_window_def plain_window_def)

section \<open>Navigation\<close>

text \<open>
  C4. For a document list of length \<open>n\<close> and a current index in \<open>[0, n-1]\<close>,
  \<open>nextFile\<close> advances the index by exactly one except at \<open>n-1\<close>, where it leaves it,
  and \<open>prevFile\<close> retreats it by exactly one except at \<open>0\<close>, where it leaves it; after
  any sequence of navigations the index is still in \<open>[0, n-1]\<close>.
\<close>

theorem navigation_stays_in_range:
  assumes "0 \<le> i" and "i < int (length fs)"
  shows "nextFile fs i = (if i = int (length fs) - 1 then i else i + 1)
    \<and> prevFile fs i = (if i = 0 then i else i - 1)
    \<and> 0 \<le> foldl (navigate fs) i ds \<and> foldl (navigate fs) i ds < int (length fs)"
  using assms navigate_foldl_in_range [of i fs ds]
  by (simp add: nextFile_def prevFile_def)

theorem navigation_stays_in_range_witness:
  "(0::int) \<le> 2 \<and> (2::int) < int (length [''a.png'', ''b.pdf'', ''c.bin''])
   \<and> nextFile [''a.png'', ''b.pdf'', ''c.bin''] 2 = 2
   \<and> prevFile [''a.png'', ''b.pdf'', ''c.bin''] 2 = 1
   \<and> foldl (navigate [''a.png'', ''b.pdf'', ''c.bin'']) 2
        [Forward, Backward, Backward, Backward] = 0"
  using navigation_stays_in_range
    [of 2 "[''a.png'', ''b.pdf'', ''c.bin'']" "[Forward, Backward, Backward, Backward]"]
  by (simp add: nextFile_def prevFile_def)

section \<open>Zoom\<close>

text \<open>
  C5. Starting from the initial zoom of 100, after any sequence of zoom-in and zoom-out
  clicks the zoom is within \<open>[50, 200]\<close> and differs from 100 by a multiple of 25;
  zooming in at 200 and zooming out at 50 change nothing.
\<close>

theorem zoom_stays_in_range:
  "50 \<le> foldl zoom_step initial_zoom cs \<and> foldl zoom_step initial_zoom cs \<le> 200
   \<and> (foldl zoom_step initial_zoom cs - 100) mod 25 = 0
   \<and> handleZoomIn 200 = 200 \<and> handleZoomOut 50 = 50"
  using zoom_foldl_inv [of initial_zoom cs]
  by (simp add: initial_zoom_def handleZoomIn_def handleZoomOut_def)

theorem zoom_stays_in_range_witness:
  "foldl zoom_step initial_zoom [ZoomIn, ZoomIn, ZoomIn, ZoomIn, ZoomIn] = 200
   \<and> foldl zoom_step initial_zoom [ZoomOut, ZoomOut, ZoomOut, ZoomIn] = 75"
  using zoom_stays_in_range [of "[ZoomIn, ZoomIn, ZoomIn, ZoomIn, ZoomIn]"]
    zoom_stays_in_range [of "[ZoomOut, ZoomOut, ZoomOut, ZoomIn]"]
  by (simp add: initial_zoom_def handleZoomIn_def handleZoomOut_def)

section \<open>Global suppression\<close>

text \<open>
  C6. The claim is that copy, cut, paste, the five drag events and \<open>beforeprint\<close> all
  have their default action cancelled. The listener installed for \<open>beforeprint\<close>,
  \<open>blockPrint\<close>, only returns \<open>false\<close> and never calls \<open>preventDefault\<close>, unlike
  \<open>blockClipboard\<close> and \<open>blockDragDrop\<close>: a \<open>beforeprint\<close> event comes out of the
  dispatch with its default action not cancelled, while a cut event comes out cancelled.
\<close>

theorem beforeprint_not_cancelled:
  "defaultPrevented (dispatch BeforePrint fresh_event) = False
   \<and> defaultPrevented (dispatch Cut fresh_event) = True"
  by (simp add: dispatch_def installed_listeners_def fresh_event_def blockPrint_def
      blockClipboard_def preventDefault_def stopPropagation_def)

section \<open>Key suppression\<close>




section \<open>Stale conversions\<close>

text \<open>
  C8. The claim is that the frame only ever shows the conversion of the current
  document, with the loading placeholder until that conversion ends. With two PDFs,
  \<open>a.pdf\<close> current: (1) once \<open>a.pdf\<close> is converted, going forward to \<open>b.pdf\<close> keeps the
  frame on the data of \<open>a.pdf\<close>, under the title \<open>b.pdf\<close>, instead of the placeholder;
  (2) going forward while \<open>a.pdf\<close> is still being read, a read of \<open>a.pdf\<close> that ends after
  that of \<open>b.pdf\<close> replaces the data of \<open>b.pdf\<close> in the frame.
\<close>

theorem stale_conversion_displayed:
  "currentFile two_pdfs 1 = Some (pdf_file 2 ''b.pdf'' ''BBBB'')
   \<and> session_content (foldl session_step (mount two_pdfs 0) [ReaderLoad 0, ClickNavigate Forward])
       = PdfFrame (DataURL ''AAAA'') ''b.pdf'' 100
   \<and> session_content
        (foldl session_step (mount two_pdfs 0) [ClickNavigate Forward, ReaderLoad 1, ReaderLoad 0])
       = PdfFrame (DataURL ''AAAA'') ''b.pdf'' 100"
  by (simp add: two_pdfs_def pdf_file_def mount_def session_content_def currentFile_def
      conversion_effect_def initial_viewer_state_def reader_onload_def remove_nth_def
      onFileChange_def same_dependency_def nextFile_def renderContent_def)

section \<open>Acknowledgement\<close>

text \<open>
  C9. The \<open>onClick\<close> of the Continue button clears \<open>screenCaptureAttempt\<close> and leaves
  \<open>devToolsOpen\<close> as it was. While \<open>devToolsOpen\<close> is true the overlay on screen has no
  button; the capture overlay has the Continue button alone. Among all transitions of
  the supervisor's state, only a detection poll at which no delta exceeds the threshold
  turns \<open>devToolsOpen\<close> from true to false.
\<close>

theorem acknowledgement_clears_capture_only:
  "screenCaptureAttempt (Continue_onClick s) = False
   \<and> devToolsOpen (Continue_onClick s) = devToolsOpen s
   \<and> (devToolsOpen s \<longrightarrow> overlay_buttons (SecurityLayer_render s c) = [])
   \<and> (\<not> devToolsOpen s \<and> screenCaptureAttempt s \<longrightarrow>
         overlay_buttons (SecurityLayer_render s c) = [''Continue'']
         \<and> security_step nav (Click ''Continue'') s = Continue_onClick s)
   \<and> (devToolsOpen s \<and> \<not> devToolsOpen (security_step nav ev s) \<longrightarrow>
         (\<exists>w. ev = Poll w \<and> \<not> over_threshold w))"
  by (cases ev)
     (auto simp: Continue_onClick_def SecurityLayer_render_def security_step_def
        over_threshold_def detectDevTools_def SecurityLayer_handleKeyDown_def
        call_getDisplayMedia_def Let_def
        split: option.splits display_media_fn.splits if_splits)

theorem acknowledgement_clears_capture_only_witness:
  "devToolsOpen \<lparr>devToolsOpen = True, screenCaptureAttempt = True\<rparr>
   \<and> overlay_buttons
        (SecurityLayer_render \<lparr>devToolsOpen = True, screenCaptureAttempt = True\<rparr> ()) = []
   \<and> \<not> devToolsOpen (security_step (nav_with (Some Stub)) (Poll plain_window)
          \<lparr>devToolsOpen = True, screenCaptureAttempt = True\<rparr>)
   \<and> \<not> over_threshold plain_window
   \<and> \<not> devToolsOpen \<lparr>devToolsOpen = False, screenCaptureAttempt = True\<rparr>
   \<and> screenCaptureAttempt \<lparr>devToolsOpen = False, screenCaptureAttempt = True\<rparr>
   \<and> security_step (nav_with (Some Stub)) (Click ''Continue'')
        \<lparr>devToolsOpen = False, screenCaptureAttempt = True\<rparr>
      = \<lparr>devToolsOpen = False, screenCaptureAttempt = False\<rparr>"
  using acknowledgement_clears_capture_only
      [of "\<lparr>devToolsOpen = True, screenCaptureAttempt = True\<rparr>" "()" "nav_with (Some Stub)"
          "Poll plain_window"]
    acknowledgement_clears_capture_only
      [of "\<lparr>devToolsOpen = False, screenCaptureAttempt = True\<rparr>" "()" "nav_with (Some Stub)"
          "Poll plain_window"]
  by (simp add: security_step_def detectDevTools_def plain_window_def Continue_onClick_def)

section \<open>Keyboard-triggered block\<close>

text \<open>
  C10. The claim is that pressing F12, Ctrl+Shift+I, Ctrl+Shift+C or Ctrl+U is cancelled
  by the listener of \<open>SecurityLayer\<close> and sets \<open>devToolsOpen\<close>. The listener compares
  \<open>e.key\<close> with the upper-case \<open>U\<close>; Ctrl+U pressed without Shift reports the key \<open>u\<close>,
  and on that event the listener cancels nothing and leaves the state as it was.
\<close>

theorem lowercase_ctrl_u_not_detected:
  "spec_pressed CtrlU (keydown ''u'' True False)
   \<and> SecurityLayer_handleKeyDown (keydown ''u'' True False) initial_security_state
       = (keydown ''u'' True False, initial_security_state)"
  by (simp add: keydown_def SecurityLayer_handleKeyDown_def)

end
